theory Spec2Isabelle
  imports Main "HOL-Library.Word" "HOL-Library.Sublist"
begin

section \<open>Tab navigation history (kernel/src/browser/engine.c, engine.h)\<close>

text \<open>
  \<^verbatim>\<open>uint32_t\<close> counters are 32-bit words, so that \<^verbatim>\<open>history_count - 1\<close>
  wraps around at zero exactly as the C expression does where \<^verbatim>\<open>int\<close> has 32
  bits (the constant 1 is then converted to \<^verbatim>\<open>uint32_t\<close>).
\<close>

type_synonym u32 = "32 word"

text \<open>
  One slot of the array \<^verbatim>\<open>void** history\<close>: the null pointer that \<^verbatim>\<open>calloc\<close>
  leaves there, a pointer to a string made by \<^verbatim>\<open>strdup\<close>, or a pointer whose
  string has been handed to \<^verbatim>\<open>free\<close>.
\<close>

datatype history_slot = Null | Ptr string | Dangling

text \<open>
  \<^verbatim>\<open>struct browser_tab\<close> of engine.h. The nested structs \<^verbatim>\<open>state\<close> and
  \<^verbatim>\<open>navigation\<close> are flattened into their members. The members
  \<^verbatim>\<open>document\<close>, \<^verbatim>\<open>js_context\<close> and \<^verbatim>\<open>render_tree\<close> are left
  out: within the navigation functions only \<^verbatim>\<open>browser_load_html\<close> touches them,
  and what it does with them is described there.
\<close>

record browser_tab =
  tab_id :: u32
  url :: string
  title :: string
  loading :: bool
  secure :: bool
  progress :: u32
  history :: "history_slot list"
  history_index :: u32
  history_count :: u32

text \<open>
  Where the argument \<^verbatim>\<open>const char* url\<close> of \<^verbatim>\<open>browser_navigate\<close> points:
  nowhere (the null pointer), into the string of \<^verbatim>\<open>tab->url\<close> (as in
  \<^verbatim>\<open>browser_reload\<close>, which passes \<^verbatim>\<open>tab->url\<close> itself), into the string of
  the history slot \<open>i\<close> at offset \<open>k\<close>, or to a string that the tab does not own
  and the call therefore never frees.
\<close>

datatype url_pointer =
    Url_null
  | Url_in_tab_url
  | Url_in_history nat nat
  | Url_other string

text \<open>
  What the fetch layer (webapi/fetch.h, declarations only) gives back:
  a \<^verbatim>\<open>response_t\<close> with its members \<^verbatim>\<open>ok\<close> and \<^verbatim>\<open>body\<close> (\<open>None\<close> for
  a null body); the result of \<^verbatim>\<open>fetch_start\<close>, null or an operation with its
  \<^verbatim>\<open>response\<close> pointer; and, for \<^verbatim>\<open>browser_navigate\<close>, whether
  \<^verbatim>\<open>fetch_create_request\<close> returned null before that.
\<close>

datatype response = Response bool "string option"

datatype fetch_operation = No_operation | Operation "response option"

datatype fetch_result = No_request | Request fetch_operation

text \<open>
  What \<^verbatim>\<open>html_parser_create\<close> and \<^verbatim>\<open>html_parse\<close> (parser.h, declarations
  only) give \<^verbatim>\<open>browser_load_html\<close>: no parser or no document, or a document.
\<close>

datatype parse_result = Parse_failed | Parsed

text \<open>
  The tab initialisation of \<^verbatim>\<open>browser_create_tab\<close> (engine.c lines 96-129), on
  the path where every allocation succeeds; the argument is the engine's
  \<^verbatim>\<open>tab_count\<close>. The tab comes from \<^verbatim>\<open>calloc\<close>, the history array is
  \<^verbatim>\<open>calloc(100, sizeof(void*))\<close>.
\<close>

definition browser_create_tab :: "u32 \<Rightarrow> browser_tab" where
  "browser_create_tab tab_count =
     \<lparr> tab_id = tab_count, url = ''about:blank'', title = ''New Tab'',
       loading = False, secure = False, progress = 0,
       history = replicate 100 Null, history_index = 0, history_count = 0 \<rparr>"

text \<open>
  The string behind the pointer in slot \<open>i\<close>. It is there only for a slot inside the
  array that points to a live string: reading through a null or dangling pointer, and
  reading a slot past the 100 of the array, are undefined behaviour in C (\<open>None\<close>).
\<close>

definition slot_string :: "history_slot list \<Rightarrow> nat \<Rightarrow> string option" where
  "slot_string h i =
     (if i < length h
      then (case h ! i of Ptr s \<Rightarrow> Some s | Null \<Rightarrow> None | Dangling \<Rightarrow> None)
      else None)"

text \<open>
  The string that \<^verbatim>\<open>strncmp\<close> and \<^verbatim>\<open>strdup\<close> read through the argument
  \<^verbatim>\<open>url\<close>, given the slots as they are at that moment, or \<open>None\<close> where the read
  is undefined behaviour. A pointer into \<^verbatim>\<open>tab->url\<close> cannot be read once line 152
  has freed that string, and both calls of \<^verbatim>\<open>strdup(url)\<close> (lines 153 and 165)
  come after it.
\<close>

definition url_string :: "history_slot list \<Rightarrow> url_pointer \<Rightarrow> string option" where
  "url_string h p =
     (case p of
        Url_null \<Rightarrow> None
      | Url_in_tab_url \<Rightarrow> None
      | Url_in_history i k \<Rightarrow>
          (case slot_string h i of
             None \<Rightarrow> None
           | Some s \<Rightarrow> if k \<le> length s then Some (drop k s) else None)
      | Url_other s \<Rightarrow> Some s)"

text \<open>
  The loop of lines 158-160:
  \<^verbatim>\<open>for (uint32_t i = index + 1; i < count; i++) free(history[i]);\<close>
  With \<open>i < n\<close> the increment does not wrap. \<^verbatim>\<open>free\<close> of a null pointer does
  nothing, \<^verbatim>\<open>free\<close> of a live string leaves the pointer dangling in its slot;
  \<^verbatim>\<open>free\<close> of a dangling pointer and a read past the array are undefined
  behaviour (\<open>None\<close>).
\<close>

function free_forward :: "history_slot list \<Rightarrow> u32 \<Rightarrow> u32 \<Rightarrow> history_slot list option" where
  "free_forward h i n =
     (if i < n
      then (if unat i < length h
            then (case h ! unat i of
                    Null \<Rightarrow> free_forward h (i + 1) n
                  | Ptr s \<Rightarrow> free_forward (h[unat i := Dangling]) (i + 1) n
                  | Dangling \<Rightarrow> None)
            else None)
      else Some h)"
  by pat_completeness auto
termination
  by (relation "measure (\<lambda>(h, i, n). unat n - unat i)") (simp, unat_arith, unat_arith)

declare free_forward.simps [simp del]

text \<open>Lines 156-162: the forward history is cleared.\<close>

definition clear_forward_history :: "browser_tab \<Rightarrow> browser_tab option" where
  "clear_forward_history tab =
     (if history_index tab < history_count tab - 1
      then (case free_forward (history tab) (history_index tab + 1) (history_count tab) of
              None \<Rightarrow> None
            | Some h \<Rightarrow> Some (tab\<lparr> history := h, history_count := history_index tab + 1 \<rparr>))
      else Some tab)"

text \<open>
  Lines 164-168: the URL is recorded while fewer than 100 entries are in use.
  \<^verbatim>\<open>strdup\<close> is taken to find memory.
\<close>

definition add_to_history :: "browser_tab \<Rightarrow> url_pointer \<Rightarrow> browser_tab option" where
  "add_to_history tab p =
     (if history_count tab < 100
      then (case url_string (history tab) p of
              None \<Rightarrow> None
            | Some u \<Rightarrow>
                Some (tab\<lparr> history := (history tab)[unat (history_count tab) := Ptr u],
                          history_count := history_count tab + 1,
                          history_index := (history_count tab + 1) - 1 \<rparr>))
      else Some tab)"

text \<open>
  \<^verbatim>\<open>browser_load_html\<close> (lines 202-270) on a non-null tab; \<open>html\<close> is \<open>None\<close>
  for a null pointer. The function returns -1 on line 203 for a null \<open>html\<close>, on line
  207 when no parser is created and on line 218 when \<^verbatim>\<open>html_parse\<close> returns null;
  up to there it has written \<^verbatim>\<open>tab->document\<close> only, which the record leaves
  out. With a document it goes on without another \<^verbatim>\<open>return\<close> to lines 262-267:
  there it frees \<^verbatim>\<open>tab->render_tree\<close> if that is not null and then calls a
  function through that same pointer, a null pointer (as \<^verbatim>\<open>calloc\<close> left it in
  \<^verbatim>\<open>browser_create_tab\<close>; no other line writes the member) or a freed one. So
  with a document every run ends in undefined behaviour (\<open>None\<close>), whatever lines
  221-259 did before, the write of \<^verbatim>\<open>tab->title\<close> on lines 225-226 included.
\<close>

definition browser_load_html ::
    "browser_tab \<Rightarrow> string option \<Rightarrow> parse_result \<Rightarrow> (int \<times> browser_tab) option" where
  "browser_load_html tab html parse =
     (case html of
        None \<Rightarrow> Some (- 1, tab)
      | Some content \<Rightarrow>
          (case parse of
             Parse_failed \<Rightarrow> Some (- 1, tab)
           | Parsed \<Rightarrow> None))"

text \<open>
  \<^verbatim>\<open>if (response && response->ok) browser_load_html(tab, (char*)response->body);\<close>
  (lines 188-192, and with the operation's response lines 407-409 and 431-433); the
  value that \<^verbatim>\<open>browser_load_html\<close> returns is dropped.
\<close>

definition load_response :: "browser_tab \<Rightarrow> response option \<Rightarrow> parse_result \<Rightarrow> browser_tab option" where
  "load_response tab resp parse =
     (case resp of
        None \<Rightarrow> Some tab
      | Some (Response ok body) \<Rightarrow>
          if ok then map_option snd (browser_load_html tab body parse) else Some tab)"

text \<open>
  \<^verbatim>\<open>browser_navigate\<close> (lines 140-199) on a non-null tab: the returned \<^verbatim>\<open>int\<close>
  and the tab as the call leaves it, or \<open>None\<close> where the call runs into undefined
  behaviour. \<^verbatim>\<open>strncmp(url, "https://", 8) == 0\<close> holds exactly when the first
  eight characters of the URL are that prefix. Line 152 frees \<^verbatim>\<open>tab->url\<close> before
  line 153 copies \<^verbatim>\<open>url\<close>, so a \<^verbatim>\<open>url\<close> that points into that string is read
  after it has been freed; a \<^verbatim>\<open>url\<close> that points into a history slot is read
  again on line 165, after the loop of lines 158-160 may have freed the slot.
\<close>

definition browser_navigate ::
    "browser_tab \<Rightarrow> url_pointer \<Rightarrow> fetch_result \<Rightarrow> parse_result \<Rightarrow> (int \<times> browser_tab) option" where
  "browser_navigate tab p fetched parse =
     (case p of
        Url_null \<Rightarrow> Some (- 1, tab)
      | _ \<Rightarrow>
         (case url_string (history tab) p of
            None \<Rightarrow> None
          | Some u \<Rightarrow>
             (let t1 = tab\<lparr> loading := True, progress := 0 \<rparr>;
                  t2 = t1\<lparr> secure := (take 8 u = ''https://'') \<rparr>;
                  t3 = t2\<lparr> url := u \<rparr>
              in case clear_forward_history t3 of
                   None \<Rightarrow> None
                 | Some t4 \<Rightarrow>
                    (case add_to_history t4 p of
                       None \<Rightarrow> None
                     | Some t5 \<Rightarrow>
                        (case fetched of
                           No_request \<Rightarrow> Some (- 1, t5\<lparr> loading := False \<rparr>)
                         | Request No_operation \<Rightarrow> Some (- 1, t5\<lparr> loading := False \<rparr>)
                         | Request (Operation resp) \<Rightarrow>
                            (case load_response t5 resp parse of
                               None \<Rightarrow> None
                             | Some t6 \<Rightarrow> Some (0, t6\<lparr> loading := False, progress := 100 \<rparr>)))))))"

text \<open>
  \<^verbatim>\<open>browser_reload\<close> (lines 441-449) on a non-null tab with a non-null
  \<^verbatim>\<open>tab->url\<close>: \<^verbatim>\<open>return browser_navigate(tab, tab->url);\<close>
\<close>

definition browser_reload ::
    "browser_tab \<Rightarrow> fetch_result \<Rightarrow> parse_result \<Rightarrow> (int \<times> browser_tab) option" where
  "browser_reload tab fetched parse = browser_navigate tab Url_in_tab_url fetched parse"

text \<open>
  \<^verbatim>\<open>browser_go_back\<close> (lines 393-414) and \<^verbatim>\<open>browser_go_forward\<close> (lines
  417-438) on a non-null tab: the returned \<^verbatim>\<open>int\<close> and the tab as the call leaves
  it, or \<open>None\<close> where the call runs into undefined behaviour. Both call
  \<^verbatim>\<open>fetch_start\<close> whatever \<^verbatim>\<open>fetch_create_request\<close> returned and test its
  result, the second argument of the model.
\<close>

definition browser_go_back ::
    "browser_tab \<Rightarrow> fetch_operation \<Rightarrow> parse_result \<Rightarrow> (int \<times> browser_tab) option" where
  "browser_go_back tab fetch_op parse =
     (if history_index tab = 0 then Some (- 1, tab)
      else
        (let t1 = tab\<lparr> history_index := history_index tab - 1 \<rparr> in
         case slot_string (history t1) (unat (history_index t1)) of
           None \<Rightarrow> None
         | Some u \<Rightarrow>
            (let t2 = t1\<lparr> loading := True, url := u \<rparr> in
             case fetch_op of
               No_operation \<Rightarrow> Some (0, t2\<lparr> loading := False \<rparr>)
             | Operation resp \<Rightarrow>
                (case load_response t2 resp parse of
                   None \<Rightarrow> None
                 | Some t3 \<Rightarrow> Some (0, t3\<lparr> loading := False \<rparr>)))))"

definition browser_go_forward ::
    "browser_tab \<Rightarrow> fetch_operation \<Rightarrow> parse_result \<Rightarrow> (int \<times> browser_tab) option" where
  "browser_go_forward tab fetch_op parse =
     (if history_index tab \<ge> history_count tab - 1 then Some (- 1, tab)
      else
        (let t1 = tab\<lparr> history_index := history_index tab + 1 \<rparr> in
         case slot_string (history t1) (unat (history_index t1)) of
           None \<Rightarrow> None
         | Some u \<Rightarrow>
            (let t2 = t1\<lparr> loading := True, url := u \<rparr> in
             case fetch_op of
               No_operation \<Rightarrow> Some (0, t2\<lparr> loading := False \<rparr>)
             | Operation resp \<Rightarrow>
                (case load_response t2 resp parse of
                   None \<Rightarrow> None
                 | Some t3 \<Rightarrow> Some (0, t3\<lparr> loading := False \<rparr>)))))"

text \<open>
  The bounds the navigation code relies on: the array has its 100 slots, at most 100 of
  them are in use, and the index does not run past the count.
\<close>

definition history_bounded :: "browser_tab \<Rightarrow> bool" where
  "history_bounded tab =
     (length (history tab) = 100 \<and> history_count tab \<le> 100 \<and> history_index tab \<le> history_count tab)"

text \<open>
  The bounds together with what holds of the slots of every tab that the navigation
  functions leave behind: no slot in use holds a dangling pointer, and while the count is
  0 every slot still has the null pointer of \<^verbatim>\<open>calloc\<close>.
\<close>

definition history_wf :: "browser_tab \<Rightarrow> bool" where
  "history_wf tab =
     (history_bounded tab \<and>
      Dangling \<notin> set (take (unat (history_count tab)) (history tab)) \<and>
      (if history_count tab = 0 then history tab = replicate 100 Null else True))"

section \<open>The HTML parser's declarations (kernel/src/browser/html/parser.h)\<close>

text \<open>\<^verbatim>\<open>html_tokenizer_state_t\<close>, lines 8-29.\<close>

datatype html_tokenizer_state_t =
    STATE_DATA
  | STATE_TAG_OPEN
  | STATE_END_TAG_OPEN
  | STATE_TAG_NAME
  | STATE_BEFORE_ATTRIBUTE_NAME
  | STATE_ATTRIBUTE_NAME
  | STATE_AFTER_ATTRIBUTE_NAME
  | STATE_BEFORE_ATTRIBUTE_VALUE
  | STATE_ATTRIBUTE_VALUE_DOUBLE_QUOTED
  | STATE_ATTRIBUTE_VALUE_SINGLE_QUOTED
  | STATE_ATTRIBUTE_VALUE_UNQUOTED
  | STATE_AFTER_ATTRIBUTE_VALUE_QUOTED
  | STATE_SELF_CLOSING_START_TAG
  | STATE_COMMENT_START
  | STATE_COMMENT
  | STATE_COMMENT_END
  | STATE_DOCTYPE
  | STATE_SCRIPT_DATA
  | STATE_STYLE_DATA
  | STATE_CDATA_SECTION

text \<open>\<^verbatim>\<open>html_token_type_t\<close>, lines 32-40.\<close>

datatype html_token_type_t =
    TOKEN_DOCTYPE
  | TOKEN_START_TAG
  | TOKEN_END_TAG
  | TOKEN_SELF_CLOSING_TAG
  | TOKEN_COMMENT
  | TOKEN_CHARACTER
  | TOKEN_EOF

text \<open>
  \<^verbatim>\<open>html_token_t\<close>, lines 43-53. The array \<^verbatim>\<open>attributes\<close> and its
  \<^verbatim>\<open>attribute_count\<close> are one list of (name, value) pairs.
\<close>

record html_token_t =
  type :: html_token_type_t
  tag_name :: string
  attributes :: "(string \<times> string) list"
  data :: string
  self_closing :: bool

text \<open>\<^verbatim>\<open>html_tokenizer_t\<close>, lines 56-64; \<^verbatim>\<open>buffer\<close> carries its own size.\<close>

record html_tokenizer_t =
  input :: string
  position :: u32
  input_length :: u32
  state :: html_tokenizer_state_t
  current_token :: "html_token_t option"
  buffer :: string

text \<open>\<^verbatim>\<open>html_insertion_mode_t\<close>, lines 67-84.\<close>

datatype html_insertion_mode_t =
    MODE_INITIAL
  | MODE_BEFORE_HTML
  | MODE_BEFORE_HEAD
  | MODE_IN_HEAD
  | MODE_AFTER_HEAD
  | MODE_IN_BODY
  | MODE_AFTER_BODY
  | MODE_AFTER_AFTER_BODY
  | MODE_IN_TABLE
  | MODE_IN_TABLE_BODY
  | MODE_IN_ROW
  | MODE_IN_CELL
  | MODE_IN_SELECT
  | MODE_IN_TEMPLATE
  | MODE_IN_FRAMESET
  | MODE_AFTER_FRAMESET

text \<open>
  A \<^verbatim>\<open>struct dom_element*\<close> or \<^verbatim>\<open>struct dom_document*\<close>: \<open>None\<close> is the
  null pointer, \<open>Some a\<close> the node at address \<open>a\<close>.
\<close>

type_synonym dom_ptr = "nat option"

text \<open>
  \<^verbatim>\<open>html_parser_t\<close>, lines 87-99. Each pointer array and its count
  (\<^verbatim>\<open>open_elements\<close> with \<^verbatim>\<open>open_elements_count\<close>, \<^verbatim>\<open>active_formatting\<close>
  with \<^verbatim>\<open>active_formatting_count\<close>) is one list.
\<close>

record html_parser_t =
  tokenizer :: "html_tokenizer_t option"
  mode :: html_insertion_mode_t
  open_elements :: "dom_ptr list"
  active_formatting :: "dom_ptr list"
  document :: dom_ptr
  head_element :: dom_ptr
  form_element :: dom_ptr
  scripting_enabled :: bool
  fragment_parsing :: bool

text \<open>\<^verbatim>\<open>html_parse_error_t\<close>, lines 129-137.\<close>

datatype html_parse_error_t =
    HTML_ERROR_UNEXPECTED_TOKEN
  | HTML_ERROR_UNEXPECTED_EOF
  | HTML_ERROR_MISSING_END_TAG
  | HTML_ERROR_NESTED_FORM
  | HTML_ERROR_INVALID_NESTING
  | HTML_ERROR_DUPLICATE_ATTRIBUTE
  | HTML_ERROR_INVALID_CHARACTER

text \<open>
  The name of each enumerator of \<^verbatim>\<open>html_insertion_mode_t\<close> in the specification's
  spelling: the prefix \<^verbatim>\<open>MODE_\<close> dropped, lower case, hyphens for underscores.
\<close>

fun insertion_mode_name :: "html_insertion_mode_t \<Rightarrow> string" where
  "insertion_mode_name MODE_INITIAL = ''initial''"
| "insertion_mode_name MODE_BEFORE_HTML = ''before-html''"
| "insertion_mode_name MODE_BEFORE_HEAD = ''before-head''"
| "insertion_mode_name MODE_IN_HEAD = ''in-head''"
| "insertion_mode_name MODE_AFTER_HEAD = ''after-head''"
| "insertion_mode_name MODE_IN_BODY = ''in-body''"
| "insertion_mode_name MODE_AFTER_BODY = ''after-body''"
| "insertion_mode_name MODE_AFTER_AFTER_BODY = ''after-after-body''"
| "insertion_mode_name MODE_IN_TABLE = ''in-table''"
| "insertion_mode_name MODE_IN_TABLE_BODY = ''in-table-body''"
| "insertion_mode_name MODE_IN_ROW = ''in-row''"
| "insertion_mode_name MODE_IN_CELL = ''in-cell''"
| "insertion_mode_name MODE_IN_SELECT = ''in-select''"
| "insertion_mode_name MODE_IN_TEMPLATE = ''in-template''"
| "insertion_mode_name MODE_IN_FRAMESET = ''in-frameset''"
| "insertion_mode_name MODE_AFTER_FRAMESET = ''after-frameset''"

text \<open>The enumerators of \<^verbatim>\<open>html_insertion_mode_t\<close> in declaration order.\<close>

definition html_insertion_modes :: "html_insertion_mode_t list" where
  "html_insertion_modes =
     [MODE_INITIAL, MODE_BEFORE_HTML, MODE_BEFORE_HEAD, MODE_IN_HEAD, MODE_AFTER_HEAD,
      MODE_IN_BODY, MODE_AFTER_BODY, MODE_AFTER_AFTER_BODY, MODE_IN_TABLE,
      MODE_IN_TABLE_BODY, MODE_IN_ROW, MODE_IN_CELL, MODE_IN_SELECT, MODE_IN_TEMPLATE,
      MODE_IN_FRAMESET, MODE_AFTER_FRAMESET]"

text \<open>
  The insertion modes as the specification enumerates them (section 3, InsertionMode),
  in its order; kept apart from the enumeration of the header to compare the two.
\<close>

definition spec_insertion_modes :: "string list" where
  "spec_insertion_modes =
     [''initial'', ''before-html'', ''before-head'', ''in-head'', ''after-head'', ''in-body'',
      ''text'', ''in-table'', ''in-table-body'', ''in-row'', ''in-cell'', ''in-caption'',
      ''in-column-group'', ''in-select'', ''in-select-in-table'', ''in-template'',
      ''after-body'', ''in-frameset'', ''after-frameset'', ''after-after-body'',
      ''after-after-frameset'']"

section \<open>Attribute collection of a start tag (model of the missing tokenizer code)\<close>

text \<open>
  Modelled from the spec: the calls of the error handler. \<^verbatim>\<open>html_error_handler_t\<close>
  is declared in parser.h (line 139), but none of the repository's source files calls
  one. The specification (sections 6 and 7) has every parse error reported once through
  the registered callback and never abort; the model records the calls in order, by
  their error kind. Line, column and message are left out: the specification does not
  say what they hold.
\<close>

type_synonym error_log = "html_parse_error_t list"

text \<open>
  Modelled from the spec: how \<^verbatim>\<open>html_tokenizer_next_token\<close> (declared in parser.h
  line 110, defined in none of the repository's source files) adds one scanned attribute
  to the start tag it is building. The state is the token built so far and the errors
  reported so far. Section 3, Token: "attribute names within one StartTag are unique --
  duplicates are dropped, first occurrence wins, and this is a reportable parse error,
  not a fatal one."
\<close>

definition add_attribute ::
    "html_token_t \<times> error_log \<Rightarrow> string \<times> string \<Rightarrow> html_token_t \<times> error_log" where
  "add_attribute st occurrence =
     (let tok = fst st; log = snd st in
      if fst occurrence \<in> set (map fst (attributes tok))
      then (tok, log @ [HTML_ERROR_DUPLICATE_ATTRIBUTE])
      else (tok\<lparr> attributes := attributes tok @ [occurrence] \<rparr>, log))"

text \<open>
  Modelled from the spec: the StartTag token that \<^verbatim>\<open>html_tokenizer_next_token\<close>
  emits for a tag whose name is \<open>name\<close>, whose attributes occur in the input as the
  (name, value) pairs \<open>occurrences\<close>, in input order, and whose self-closing flag is
  \<open>closing\<close>, together with the errors reported while it is built. Section 3:
  "StartTag{name, attributes: ordered-unique-by-name list of (name,value), self_closing}".
\<close>

definition start_tag_token ::
    "string \<Rightarrow> (string \<times> string) list \<Rightarrow> bool \<Rightarrow> html_token_t \<times> error_log" where
  "start_tag_token name occurrences closing =
     foldl add_attribute
       (\<lparr> type = TOKEN_START_TAG, tag_name = name, attributes = [], data = [],
          self_closing = closing \<rparr>, [])
       occurrences"

section \<open>Properties of the navigation history\<close>

subsection \<open>Freeing the forward history\<close>




subsection \<open>Clearing and recording\<close>



















subsection \<open>Loading the response\<close>

lemma load_response_Some: "load_response t resp parse = Some t' \<Longrightarrow> t' = t"
  by (auto simp: load_response_def browser_load_html_def
      split: option.splits response.splits if_splits parse_result.splits)


lemma load_response_parsed [simp]:
  "load_response t (Some (Response True (Some content))) Parsed = None"
  by (simp add: load_response_def browser_load_html_def)

subsection \<open>Navigation\<close>

lemma history_wf_other_members [simp]:
  "history_wf (t\<lparr> loading := a \<rparr>) = history_wf t"
  "history_wf (t\<lparr> progress := b \<rparr>) = history_wf t"
  "history_wf (t\<lparr> secure := c \<rparr>) = history_wf t"
  "history_wf (t\<lparr> url := d \<rparr>) = history_wf t"
  by (simp_all add: history_wf_def history_bounded_def)







subsection \<open>The other navigation functions\<close>


lemma u32_pred_le: "(i::u32) \<noteq> 0 \<Longrightarrow> i \<le> c \<Longrightarrow> i - 1 \<le> c"
  by unat_arith

lemma u32_succ_le_count: "\<not> (c::u32) - 1 \<le> i \<Longrightarrow> c \<noteq> 0 \<Longrightarrow> i + 1 \<le> c"
  by unat_arith

lemma history_wf_go_back:
  assumes "history_wf t" and "browser_go_back t fetch_op parse = Some (r, t')"
  shows "history_wf t'"
  using assms
  by (auto simp: browser_go_back_def history_wf_def history_bounded_def Let_def u32_pred_le
      split: if_splits option.splits fetch_operation.splits dest!: load_response_Some)

lemma slot_string_new: "slot_string (replicate 100 Null) i = None"
  by (simp add: slot_string_def)

lemma history_wf_go_forward:
  assumes "history_wf t" and "browser_go_forward t fetch_op parse = Some (r, t')"
  shows "history_wf t'"
proof (cases "history_count t = 0")
  case True
  with assms(1) have "history t = replicate 100 Null" by (simp add: history_wf_def)
  with assms show ?thesis
    by (auto simp: browser_go_forward_def Let_def slot_string_new split: if_splits)
next
  case False
  with assms show ?thesis
    by (auto simp: browser_go_forward_def history_wf_def history_bounded_def Let_def
        u32_succ_le_count
        split: if_splits option.splits fetch_operation.splits dest!: load_response_Some)
qed

text \<open>
  \<^verbatim>\<open>browser_reload\<close> never returns in a defined way: it passes \<^verbatim>\<open>tab->url\<close>,
  which \<^verbatim>\<open>browser_navigate\<close> frees before it copies it.
\<close>

lemma browser_reload_undefined: "browser_reload tab fetched parse = None"
  by (simp add: browser_reload_def browser_navigate_def url_string_def)

text \<open>
  The first navigation of a new tab passes the guard of the clearing branch
  (\<^verbatim>\<open>0 < 0 - 1\<close> in \<^verbatim>\<open>uint32_t\<close>): the count becomes 1 before the URL is
  recorded in slot 1, and slot 0 keeps its null pointer. Going back after that reads slot
  0, and going forward on a new tab passes its guard in the same way and reads slot 1.
\<close>

lemma browser_go_forward_new_tab: "browser_go_forward (browser_create_tab n) fetch_op parse = None"
  by (simp add: browser_go_forward_def browser_create_tab_def Let_def slot_string_def
      word_le_0_iff)


lemma browser_go_back_after_first_navigation:
  "browser_navigate (browser_create_tab n) (Url_other u) fetched parse = Some (r, t) \<Longrightarrow>
   browser_go_back t fetch_op parse' = None"
  by (auto simp: browser_navigate_def browser_create_tab_def Let_def url_string_def
      clear_forward_history_def add_to_history_def free_forward.simps word_gt_0
      browser_go_back_def slot_string_def
      split: fetch_result.splits fetch_operation.splits option.splits dest!: load_response_Some)


text \<open>
  A URL that points into the entry of slot 2 while the index is 1: the loop frees the
  entry before line 165 copies the URL.
\<close>

lemma navigation_to_cleared_entry:
  "browser_navigate
     ((browser_create_tab n)
        \<lparr> history := (replicate 100 Null)[1 := Ptr ''a'', 2 := Ptr ''b''],
          history_index := 1, history_count := 3 \<rparr>)
     (Url_in_history 2 0) fetched parse = None"
  by (simp add: browser_navigate_def browser_create_tab_def Let_def url_string_def
      slot_string_def clear_forward_history_def add_to_history_def free_forward.simps)


section \<open>The insertion modes and the parser state of parser.h\<close>

lemma UNIV_html_insertion_mode: "UNIV = set html_insertion_modes"
proof -
  have "m \<in> set html_insertion_modes" for m
    by (cases m) (simp_all add: html_insertion_modes_def)
  then show ?thesis by auto
qed

lemma distinct_html_insertion_modes: "distinct html_insertion_modes"
  by (simp add: html_insertion_modes_def)

lemma card_html_insertion_mode: "card (UNIV :: html_insertion_mode_t set) = 16"
  unfolding UNIV_html_insertion_mode
  by (simp add: distinct_card [OF distinct_html_insertion_modes])
     (simp add: html_insertion_modes_def)

lemma insertion_mode_names:
  "insertion_mode_name ` UNIV = set (map insertion_mode_name html_insertion_modes)"
  unfolding UNIV_html_insertion_mode by simp

text \<open>
  Claim C9 as stated fails on parser.h: the specification enumerates 21 distinct modes,
  the type \<^verbatim>\<open>html_insertion_mode_t\<close> has 16 values, and the mode "text" of the
  specification is the name of none of them.
\<close>

theorem insertion_modes_not_21:
  "length spec_insertion_modes = 21 \<and> distinct spec_insertion_modes \<and>
   card (UNIV :: html_insertion_mode_t set) \<noteq> 21 \<and>
   ''text'' \<in> set spec_insertion_modes \<and> ''text'' \<notin> insertion_mode_name ` UNIV"
  unfolding insertion_mode_names card_html_insertion_mode
  by (simp add: spec_insertion_modes_def html_insertion_modes_def)

text \<open>
  Claim C9, amended to what parser.h declares. The insertion mode is exactly one of 16
  enumerated modes, each of them a mode of the specification's list; the five modes of
  that list that the header does not have are text, in-caption, in-column-group,
  in-select-in-table and after-after-frameset. A parser state is nothing but its
  tokenizer, its one mode, the stack of open elements, the list of active formatting
  elements, the document, the head and form element pointers and the two flags: it has
  neither a slot for an original insertion mode nor a stack of template insertion modes.
\<close>

theorem insertion_modes_of_header:
  "card (UNIV :: html_insertion_mode_t set) = 16 \<and>
   insertion_mode_name ` UNIV \<subseteq> set spec_insertion_modes \<and>
   filter (\<lambda>n. n \<notin> insertion_mode_name ` UNIV) spec_insertion_modes
     = [''text'', ''in-caption'', ''in-column-group'', ''in-select-in-table'',
        ''after-after-frameset''] \<and>
   p = \<lparr> tokenizer = tokenizer p, mode = mode p, open_elements = open_elements p,
         active_formatting = active_formatting p, document = document p,
         head_element = head_element p, form_element = form_element p,
         scripting_enabled = scripting_enabled p, fragment_parsing = fragment_parsing p \<rparr>"
proof (intro conjI)
  show "card (UNIV :: html_insertion_mode_t set) = 16"
    by (rule card_html_insertion_mode)
  show "insertion_mode_name ` UNIV \<subseteq> set spec_insertion_modes"
    unfolding insertion_mode_names
    by (simp add: spec_insertion_modes_def html_insertion_modes_def)
  show "filter (\<lambda>n. n \<notin> insertion_mode_name ` UNIV) spec_insertion_modes
     = [''text'', ''in-caption'', ''in-column-group'', ''in-select-in-table'',
        ''after-after-frameset'']"
    unfolding insertion_mode_names
    by (simp add: spec_insertion_modes_def html_insertion_modes_def)
  show "p = \<lparr> tokenizer = tokenizer p, mode = mode p, open_elements = open_elements p,
         active_formatting = active_formatting p, document = document p,
         head_element = head_element p, form_element = form_element p,
         scripting_enabled = scripting_enabled p, fragment_parsing = fragment_parsing p \<rparr>"
    by simp
qed

section \<open>Attribute names of a start tag are unique\<close>

lemma add_attribute_duplicate:
  "fst oc \<in> set (map fst (attributes (fst st))) \<Longrightarrow>
   add_attribute st oc = (fst st, snd st @ [HTML_ERROR_DUPLICATE_ATTRIBUTE])"
  by (simp add: add_attribute_def Let_def)

lemma add_attribute_new:
  "fst oc \<notin> set (map fst (attributes (fst st))) \<Longrightarrow>
   add_attribute st oc = ((fst st)\<lparr> attributes := attributes (fst st) @ [oc] \<rparr>, snd st)"
  by (simp add: add_attribute_def Let_def)

lemma add_attribute_fields:
  "type (fst (add_attribute st oc)) = type (fst st)"
  "tag_name (fst (add_attribute st oc)) = tag_name (fst st)"
  "self_closing (fst (add_attribute st oc)) = self_closing (fst st)"
  by (simp_all add: add_attribute_def Let_def)

lemma foldl_add_fields:
  "type (fst (foldl add_attribute st ocs)) = type (fst st) \<and>
   tag_name (fst (foldl add_attribute st ocs)) = tag_name (fst st) \<and>
   self_closing (fst (foldl add_attribute st ocs)) = self_closing (fst st)"
  by (induction ocs arbitrary: st) (simp_all add: add_attribute_fields)

lemma add_attribute_distinct:
  "distinct (map fst (attributes (fst st))) \<Longrightarrow>
   distinct (map fst (attributes (fst (add_attribute st oc))))"
  by (cases "fst oc \<in> set (map fst (attributes (fst st)))")
     (simp_all add: add_attribute_duplicate add_attribute_new)

lemma foldl_add_distinct:
  "distinct (map fst (attributes (fst st))) \<Longrightarrow>
   distinct (map fst (attributes (fst (foldl add_attribute st ocs))))"
  by (induction ocs arbitrary: st) (simp_all add: add_attribute_distinct)

lemma map_of_append_known:
  assumes "fst oc \<in> set (map fst xs)"
  shows "map_of (xs @ oc # ys) = map_of (xs @ ys)"
proof
  fix k
  from assms have "map_of xs (fst oc) \<noteq> None"
    by (simp add: map_of_eq_None_iff)
  then show "map_of (xs @ oc # ys) k = map_of (xs @ ys) k"
    by (cases oc) (auto simp: map_add_def split: option.splits)
qed

lemma foldl_add_map_of:
  "map_of (attributes (fst (foldl add_attribute st ocs))) = map_of (attributes (fst st) @ ocs)"
proof (induction ocs arbitrary: st)
  case Nil show ?case by simp
next
  case (Cons oc ocs)
  show ?case
  proof (cases "fst oc \<in> set (map fst (attributes (fst st)))")
    case True
    with Cons.IH [of "add_attribute st oc"] show ?thesis
      by (simp add: add_attribute_duplicate map_of_append_known del: map_of_append)
  next
    case False
    with Cons.IH [of "add_attribute st oc"] show ?thesis
      by (simp add: add_attribute_new)
  qed
qed

lemma foldl_add_kept:
  "\<exists>kept. attributes (fst (foldl add_attribute st ocs)) = attributes (fst st) @ kept \<and>
          subseq kept ocs \<and>
          snd (foldl add_attribute st ocs)
            = snd st @ replicate (length ocs - length kept) HTML_ERROR_DUPLICATE_ATTRIBUTE"
proof (induction ocs arbitrary: st)
  case Nil show ?case by simp
next
  case (Cons oc ocs)
  from Cons.IH [of "add_attribute st oc"] obtain kept where
    k: "attributes (fst (foldl add_attribute (add_attribute st oc) ocs))
          = attributes (fst (add_attribute st oc)) @ kept"
       "subseq kept ocs"
       "snd (foldl add_attribute (add_attribute st oc) ocs)
          = snd (add_attribute st oc) @ replicate (length ocs - length kept) HTML_ERROR_DUPLICATE_ATTRIBUTE"
    by blast
  from k(2) have len: "length kept \<le> length ocs" by (rule list_emb_length)
  show ?case
  proof (cases "fst oc \<in> set (map fst (attributes (fst st)))")
    case True
    with k len have "attributes (fst (foldl add_attribute st (oc # ocs))) = attributes (fst st) @ kept \<and>
          subseq kept (oc # ocs) \<and>
          snd (foldl add_attribute st (oc # ocs))
            = snd st @ replicate (length (oc # ocs) - length kept) HTML_ERROR_DUPLICATE_ATTRIBUTE"
      by (simp add: add_attribute_duplicate Suc_diff_le list_emb_Cons replicate_app_Cons_same)
    then show ?thesis by blast
  next
    case False
    with k have "attributes (fst (foldl add_attribute st (oc # ocs))) = attributes (fst st) @ (oc # kept) \<and>
         subseq (oc # kept) (oc # ocs) \<and>
         snd (foldl add_attribute st (oc # ocs))
            = snd st @ replicate (length (oc # ocs) - length (oc # kept)) HTML_ERROR_DUPLICATE_ATTRIBUTE"
      by (simp add: add_attribute_new)
    then show ?thesis by blast
  qed
qed

text \<open>
  Claim C6, on the model of the attribute collection. For every tag name, every sequence
  of attribute occurrences and either value of the self-closing flag, a StartTag token
  with that name is produced (a duplicate does not abort anything); its attribute names
  are pairwise distinct; its attributes are occurrences of the input in input order;
  every name is bound to the value of its first occurrence (\<open>map_of\<close> reads the first
  pair with a given name); and the error log holds one duplicate-attribute error for
  each occurrence that was dropped, and nothing else.
\<close>

theorem start_tag_attributes_unique:
  "type (fst (start_tag_token name occurrences closing)) = TOKEN_START_TAG \<and>
   tag_name (fst (start_tag_token name occurrences closing)) = name \<and>
   distinct (map fst (attributes (fst (start_tag_token name occurrences closing)))) \<and>
   subseq (attributes (fst (start_tag_token name occurrences closing))) occurrences \<and>
   map_of (attributes (fst (start_tag_token name occurrences closing))) = map_of occurrences \<and>
   snd (start_tag_token name occurrences closing)
     = replicate (length occurrences - length (attributes (fst (start_tag_token name occurrences closing))))
         HTML_ERROR_DUPLICATE_ATTRIBUTE"
proof -
  let ?st = "(\<lparr> type = TOKEN_START_TAG, tag_name = name, attributes = [], data = [],
          self_closing = closing \<rparr>, [] :: error_log)"
  have tok: "start_tag_token name occurrences closing = foldl add_attribute ?st occurrences"
    by (simp add: start_tag_token_def)
  from foldl_add_kept [of ?st occurrences] obtain kept where
    k: "attributes (fst (foldl add_attribute ?st occurrences)) = kept"
       "subseq kept occurrences"
       "snd (foldl add_attribute ?st occurrences)
          = replicate (length occurrences - length kept) HTML_ERROR_DUPLICATE_ATTRIBUTE"
    by auto
  show ?thesis
    unfolding tok
    using foldl_add_fields [of ?st occurrences] foldl_add_distinct [of ?st occurrences]
      foldl_add_map_of [of ?st occurrences] k
    by simp
qed


text \<open>A tag with the attribute \<open>x\<close> given twice.\<close>

lemma start_tag_token_example:
  "start_tag_token ''a'' [(''x'', ''1''), (''y'', ''2''), (''x'', ''3'')] False =
     (\<lparr> type = TOKEN_START_TAG, tag_name = ''a'', attributes = [(''x'', ''1''), (''y'', ''2'')],
        data = [], self_closing = False \<rparr>,
      [HTML_ERROR_DUPLICATE_ATTRIBUTE])"
  by (simp add: start_tag_token_def add_attribute_def)

end
